theory Spec2Isabelle
  imports Complex_Main
begin

section \<open>Alpine Athletics Resort: the booking server and its admin guard\<close>

text \<open>
  A shallow embedding of the Express server (server.js) and of its authentication
  middleware (middleware/auth.js). Every route handler is a function from the request and
  the state of the data directory to the response and the new state of the data directory;
  an exception thrown inside a handler's \<^verbatim>\<open>try\<close> block is a value \<open>Inl e\<close> that the
  handler turns into its 500 response, as the \<^verbatim>\<open>catch\<close> block does.
\<close>

subsection \<open>JavaScript values\<close>

text \<open>
  The values produced by \<^verbatim>\<open>JSON.parse\<close> (and by body-parser, which uses it). A number is
  only carried through by the server and tested for zero, never computed with. An object is
  the list of its properties in insertion order. \<^verbatim>\<open>undefined\<close> is not a JSON value: a
  JavaScript expression that may be undefined has type \<open>json option\<close>, with \<open>None\<close>
  for \<^verbatim>\<open>undefined\<close>.
\<close>

datatype json =
    JNull
  | JBool bool
  | JNum real
  | JStr string
  | JArr "json list"
  | JObj "(string \<times> json) list"

text \<open>The exceptions that reach a handler's \<^verbatim>\<open>catch\<close> block.\<close>

datatype error = TypeError | SyntaxError | IOError

text \<open>
  The truth value of a JavaScript value, as \<^verbatim>\<open>!x\<close> and \<^verbatim>\<open>x || y\<close> see it:
  \<^verbatim>\<open>undefined\<close>, \<^verbatim>\<open>null\<close>, \<^verbatim>\<open>false\<close>, zero and the empty string are falsy, everything
  else (every array and object too) is truthy.
\<close>

fun truthy :: "json option \<Rightarrow> bool" where
  "truthy None = False"
| "truthy (Some JNull) = False"
| "truthy (Some (JBool b)) = b"
| "truthy (Some (JNum n)) = (n \<noteq> 0)"
| "truthy (Some (JStr s)) = (s \<noteq> [])"
| "truthy (Some (JArr xs)) = True"
| "truthy (Some (JObj ps)) = True"

text \<open>
  Reading a property \<^verbatim>\<open>v.k\<close> of a parsed value, for the property names the server reads
  (none of them is a built-in property of strings or arrays): \<^verbatim>\<open>null\<close> throws a
  TypeError, an object gives the property or \<^verbatim>\<open>undefined\<close>, anything else gives
  \<^verbatim>\<open>undefined\<close>.
\<close>

fun get :: "json \<Rightarrow> string \<Rightarrow> error + json option" where
  "get JNull k = Inl TypeError"
| "get (JObj ps) k = Inr (map_of ps k)"
| "get v k = Inr None"

text \<open>
  An object under construction or mutation in memory: its properties may hold
  \<^verbatim>\<open>undefined\<close>. \<open>assign k v\<close> is the assignment \<^verbatim>\<open>o.k = v\<close>: an existing property
  keeps its place, a new one goes last. \<open>JSON_stringify_obj\<close> is
  \<^verbatim>\<open>JSON.stringify\<close> followed by \<^verbatim>\<open>JSON.parse\<close> on such an object, whose property
  values other than \<^verbatim>\<open>undefined\<close> are parsed JSON: the properties holding
  \<^verbatim>\<open>undefined\<close> are left out, the others are written as they are.
\<close>

type_synonym jsobject = "(string \<times> json option) list"

definition in_memory :: "(string \<times> json) list \<Rightarrow> jsobject" where
  "in_memory ps = map (\<lambda>(k, v). (k, Some v)) ps"

fun assign :: "string \<Rightarrow> json option \<Rightarrow> jsobject \<Rightarrow> jsobject" where
  "assign k v [] = [(k, v)]"
| "assign k v ((k', v') # ps) =
     (if k' = k then (k, v) # ps else (k', v') # assign k v ps)"

fun stringify_props :: "jsobject \<Rightarrow> (string \<times> json) list" where
  "stringify_props [] = []"
| "stringify_props ((k, None) # ps) = stringify_props ps"
| "stringify_props ((k, Some v) # ps) = (k, v) # stringify_props ps"

definition JSON_stringify_obj :: "jsobject \<Rightarrow> json" where
  "JSON_stringify_obj ps = JObj (stringify_props ps)"

subsection \<open>HTTP responses\<close>

text \<open>\<^verbatim>\<open>res.status(c).json(b)\<close>; \<^verbatim>\<open>res.json(b)\<close> alone answers 200.\<close>

datatype response = Response (status_code: nat) (body: json)

subsection \<open>The authentication middleware (middleware/auth.js)\<close>

text \<open>\<^verbatim>\<open>s.split(' ')\<close>: the pieces between single spaces, empty pieces kept.\<close>

fun split_sp :: "string \<Rightarrow> string list" where
  "split_sp [] = [[]]"
| "split_sp (c # cs) =
     (if c = CHR '' '' then [] # split_sp cs
      else (case split_sp cs of [] \<Rightarrow> [[c]] | t # ts \<Rightarrow> (c # t) # ts))"

text \<open>\<^verbatim>\<open>xs[i]\<close> on an array: \<^verbatim>\<open>undefined\<close> past the end.\<close>

definition at_index :: "'a list \<Rightarrow> nat \<Rightarrow> 'a option" where
  "at_index xs i = (if i < length xs then Some (xs ! i) else None)"

text \<open>
  The middleware either calls \<^verbatim>\<open>next()\<close>, handing the untouched request to the route
  handler, or answers itself.
\<close>

datatype guard = Next | Reply response

definition auth :: "string option \<Rightarrow> guard" where
  "auth bearerHeader =
     (case bearerHeader of
        Some h \<Rightarrow>
          (let bearer = split_sp h;
               bearerToken = at_index bearer 1
           in if bearerToken = Some ''Password1'' then Next
              else Reply (Response 403
                     (JObj [(''message'', JStr ''Forbidden: Invalid credentials'')])))
      | None \<Rightarrow>
          Reply (Response 401
            (JObj [(''message'', JStr ''Unauthorized: No credentials provided'')])))"

subsection \<open>The clock\<close>

text \<open>
  What the two clock reads of a request return: \<^verbatim>\<open>Date.now()\<close>, the milliseconds since
  the epoch, and \<^verbatim>\<open>new Date().toISOString()\<close>, the time of the call as text.
\<close>

record clock =
  Date_now :: nat
  toISOString :: string

text \<open>\<^verbatim>\<open>n.toString()\<close> for a non-negative integer: its decimal digits.\<close>

definition digit :: "nat \<Rightarrow> char" where
  "digit d = ''0123456789'' ! d"

function toString :: "nat \<Rightarrow> string" where
  "toString n = (if n < 10 then [digit n] else toString (n div 10) @ [digit (n mod 10)])"
  by pat_completeness auto
termination
  by (relation "measure (\<lambda>n. n)") auto

declare toString.simps [simp del]

subsection \<open>The data directory\<close>

text \<open>
  The file data/bookings.json: absent, present but not readable, holding text that is not
  JSON, or holding a JSON document (identified with the value it parses to; the
  indentation that \<^verbatim>\<open>JSON.stringify(v, null, 2)\<close> adds does not reach the parser's
  result). \<open>can_mkdir\<close> and \<open>can_write\<close> say whether \<^verbatim>\<open>fs.mkdir\<close> and
  \<^verbatim>\<open>fs.writeFile\<close> succeed on this volume; \<open>cut_short\<close> says how a write that
  fails does so: after the file was opened and truncated, or before the file was touched.
\<close>

datatype file_state = Absent | Unreadable | Garbage | Doc json

record disk =
  bookingsFile :: file_state
  can_mkdir :: bool
  can_write :: bool
  cut_short :: bool

text \<open>
  \<^verbatim>\<open>fs.writeFile(bookingsFile, JSON.stringify(v))\<close>: the exception thrown, if any, and
  the data directory afterwards. The file is opened with flag \<^verbatim>\<open>w\<close>, which truncates
  it, and the text is then written from the start. A write that fails after the
  truncation leaves a proper prefix of the text of an array, which is not a JSON document;
  a write refused at the open leaves the file as it was.
\<close>

definition writeFile :: "json \<Rightarrow> disk \<Rightarrow> error option \<times> disk" where
  "writeFile v d =
     (if can_write d then (None, d\<lparr>bookingsFile := Doc v\<rparr>)
      else if cut_short d then (Some IOError, d\<lparr>bookingsFile := Garbage\<rparr>)
      else (Some IOError, d))"

text \<open>
  \<^verbatim>\<open>ensureDataDirExists\<close>: a failing \<^verbatim>\<open>mkdir\<close> is logged and ends the function;
  \<^verbatim>\<open>fs.access\<close> throws when the file does not exist, and then an empty array is written,
  a failure of that write being logged as well, whatever it left of the file. The function
  never throws.
\<close>

definition ensureDataDirExists :: "disk \<Rightarrow> disk" where
  "ensureDataDirExists d =
     (if \<not> can_mkdir d then d
      else (case bookingsFile d of
              Absent \<Rightarrow> snd (writeFile (JArr []) d)
            | _ \<Rightarrow> d))"

text \<open>\<^verbatim>\<open>JSON.parse(await fs.readFile(bookingsFile, 'utf8'))\<close>.\<close>

definition read_bookings :: "disk \<Rightarrow> error + json" where
  "read_bookings d =
     (case bookingsFile d of
        Absent \<Rightarrow> Inl IOError
      | Unreadable \<Rightarrow> Inl IOError
      | Garbage \<Rightarrow> Inl SyntaxError
      | Doc v \<Rightarrow> Inr v)"

subsection \<open>The route handlers (server.js)\<close>

text \<open>
  \<^verbatim>\<open>req.body\<close> is the list of the properties of the object that body-parser produced
  (\<^verbatim>\<open>{}\<close> when the request had no JSON body; an array body has none of the properties
  the handlers read and is the empty list here). \<^verbatim>\<open>req.params.id\<close> is a string.
\<close>

type_synonym req_body = "(string \<times> json) list"

definition server_error :: "string \<Rightarrow> response" where
  "server_error msg = Response 500 (JObj [(''message'', JStr msg)])"

text \<open>GET /api/bookings, and GET /api/admin/bookings behind the guard.\<close>

definition get_bookings :: "disk \<Rightarrow> response \<times> disk" where
  "get_bookings d =
     (let d1 = ensureDataDirExists d in
      case read_bookings d1 of
        Inl e \<Rightarrow> (server_error ''Error fetching bookings'', d1)
      | Inr bookings \<Rightarrow> (Response 200 bookings, d1))"

text \<open>
  \<^verbatim>\<open>bookings.findIndex(booking => booking.id === id)\<close>: the callback runs on the elements
  in order until one matches, and throws on a \<^verbatim>\<open>null\<close> element. \<^verbatim>\<open>===\<close> against the
  string \<^verbatim>\<open>id\<close> holds for an equal string only.
\<close>

fun findIndex_id :: "string \<Rightarrow> json list \<Rightarrow> error + nat option" where
  "findIndex_id i [] = Inr None"
| "findIndex_id i (booking # rest) =
     (case get booking ''id'' of
        Inl e \<Rightarrow> Inl e
      | Inr v \<Rightarrow>
          if v = Some (JStr i) then Inr (Some 0)
          else (case findIndex_id i rest of
                  Inl e \<Rightarrow> Inl e
                | Inr None \<Rightarrow> Inr None
                | Inr (Some n) \<Rightarrow> Inr (Some (Suc n))))"

text \<open>
  \<^verbatim>\<open>booking.status = status; booking.updatedAt = new Date().toISOString()\<close> on the
  matched element, as the file and the response then show it. The matched element is an
  object (it has an \<^verbatim>\<open>id\<close>); an assignment to a property of a primitive value is ignored.
\<close>

definition set_status :: "json option \<Rightarrow> string \<Rightarrow> json \<Rightarrow> json" where
  "set_status status now booking =
     (case booking of
        JObj ps \<Rightarrow>
          JSON_stringify_obj
            (assign ''updatedAt'' (Some (JStr now)) (assign ''status'' status (in_memory ps)))
      | _ \<Rightarrow> booking)"

text \<open>PUT /api/admin/bookings/:id, the handler behind the guard.\<close>

definition update_booking :: "clock \<Rightarrow> string \<Rightarrow> req_body \<Rightarrow> disk \<Rightarrow> response \<times> disk" where
  "update_booking c id_param req_body d =
     (let d1 = ensureDataDirExists d;
          status = map_of req_body ''status'';
          failed = (server_error ''Error updating booking'', d1)
      in case read_bookings d1 of
           Inl e \<Rightarrow> failed
         | Inr (JArr bookings) \<Rightarrow>
             (case findIndex_id id_param bookings of
                Inl e \<Rightarrow> failed
              | Inr None \<Rightarrow>
                  (Response 404 (JObj [(''message'', JStr ''Booking not found'')]), d1)
              | Inr (Some bookingIndex) \<Rightarrow>
                  (let booking = set_status status (toISOString c) (bookings ! bookingIndex);
                       bookings' = bookings[bookingIndex := booking]
                   in case writeFile (JArr bookings') d1 of
                        (Some e, d2) \<Rightarrow> (server_error ''Error updating booking'', d2)
                      | (None, d2) \<Rightarrow>
                          (Response 200
                             (JObj [(''success'', JBool True),
                                    (''booking'', booking),
                                    (''message'', JStr ''Booking status updated successfully'')]),
                           d2)))
         | Inr _ \<Rightarrow> failed)"

text \<open>\<^verbatim>\<open>message || ''\<close>.\<close>

definition or_empty :: "json option \<Rightarrow> json" where
  "or_empty message =
     (case message of Some v \<Rightarrow> if truthy (Some v) then v else JStr [] | None \<Rightarrow> JStr [])"

definition newBooking :: "clock \<Rightarrow> req_body \<Rightarrow> jsobject" where
  "newBooking c req_body =
     [(''id'', Some (JStr (toString (Date_now c)))),
      (''fullName'', map_of req_body ''fullName''),
      (''email'', map_of req_body ''email''),
      (''phone'', map_of req_body ''phone''),
      (''checkIn'', map_of req_body ''checkIn''),
      (''checkOut'', map_of req_body ''checkOut''),
      (''message'', Some (or_empty (map_of req_body ''message''))),
      (''totalPrice'', map_of req_body ''totalPrice''),
      (''status'', Some (JStr ''pending'')),
      (''createdAt'', Some (JStr (toISOString c)))]"

text \<open>POST /api/bookings.\<close>

definition create_booking :: "clock \<Rightarrow> req_body \<Rightarrow> disk \<Rightarrow> response \<times> disk" where
  "create_booking c req_body d =
     (let d1 = ensureDataDirExists d;
          failed = (server_error ''Error saving booking request'', d1)
      in if \<not> truthy (map_of req_body ''fullName'') \<or> \<not> truthy (map_of req_body ''email'')
            \<or> \<not> truthy (map_of req_body ''phone'') \<or> \<not> truthy (map_of req_body ''checkIn'')
            \<or> \<not> truthy (map_of req_body ''checkOut'')
         then (Response 400 (JObj [(''message'', JStr ''Required fields are missing'')]), d1)
         else (case read_bookings d1 of
                 Inl e \<Rightarrow> failed
               | Inr (JArr bookings) \<Rightarrow>
                   (let booking = JSON_stringify_obj (newBooking c req_body)
                    in case writeFile (JArr (bookings @ [booking])) d1 of
                         (Some e, d2) \<Rightarrow> (server_error ''Error saving booking request'', d2)
                       | (None, d2) \<Rightarrow>
                           (Response 201
                              (JObj [(''message'', JStr ''Booking request received successfully''),
                                     (''booking'', booking)]),
                            d2))
               | Inr _ \<Rightarrow> failed))"

text \<open>
  \<^verbatim>\<open>bookings.find(b => b.id === req.params.id)\<close>: the first matching element, or
  \<^verbatim>\<open>undefined\<close>.
\<close>

fun find_id :: "string \<Rightarrow> json list \<Rightarrow> error + json option" where
  "find_id i [] = Inr None"
| "find_id i (b # rest) =
     (case get b ''id'' of
        Inl e \<Rightarrow> Inl e
      | Inr v \<Rightarrow> if v = Some (JStr i) then Inr (Some b) else find_id i rest)"

text \<open>GET /api/bookings/:id.\<close>

definition get_booking :: "string \<Rightarrow> disk \<Rightarrow> response \<times> disk" where
  "get_booking id_param d =
     (let d1 = ensureDataDirExists d;
          failed = (server_error ''Error retrieving booking'', d1)
      in case read_bookings d1 of
           Inl e \<Rightarrow> failed
         | Inr (JArr bookings) \<Rightarrow>
             (case find_id id_param bookings of
                Inl e \<Rightarrow> failed
              | Inr booking \<Rightarrow>
                  (case booking of
                     None \<Rightarrow>
                       (Response 404 (JObj [(''message'', JStr ''Booking not found'')]), d1)
                   | Some b \<Rightarrow>
                       if \<not> truthy (Some b)
                       then (Response 404 (JObj [(''message'', JStr ''Booking not found'')]), d1)
                       else (Response 200 b, d1)))
         | Inr _ \<Rightarrow> failed)"

text \<open>The two admin routes: the guard first, then the handler.\<close>

definition admin_get_bookings :: "string option \<Rightarrow> disk \<Rightarrow> response \<times> disk" where
  "admin_get_bookings authorization d =
     (case auth authorization of Reply r \<Rightarrow> (r, d) | Next \<Rightarrow> get_bookings d)"

definition admin_update_booking ::
  "string option \<Rightarrow> clock \<Rightarrow> string \<Rightarrow> req_body \<Rightarrow> disk \<Rightarrow> response \<times> disk" where
  "admin_update_booking authorization c id_param req_body d =
     (case auth authorization of
        Reply r \<Rightarrow> (r, d)
      | Next \<Rightarrow> update_booking c id_param req_body d)"

subsection \<open>Sequences of requests\<close>

text \<open>
  The status values that the route's documentation and the dashboard name.
\<close>

definition status_values :: "string list" where
  "status_values = [''pending'', ''confirmed'', ''cancelled'', ''completed'']"

text \<open>
  The states of the data directory that a sequence of create and update requests reaches
  from an empty collection (no file yet, or a file holding the empty array), the updates
  sending a string status taken from \<open>S\<close>.
\<close>

inductive reachable :: "string set \<Rightarrow> disk \<Rightarrow> bool" for S :: "string set" where
  empty: "bookingsFile d = Absent \<or> bookingsFile d = Doc (JArr []) \<Longrightarrow> reachable S d"
| create: "reachable S d \<Longrightarrow> reachable S (snd (create_booking c req_body d))"
| update: "reachable S d \<Longrightarrow> map_of req_body ''status'' = Some (JStr s) \<Longrightarrow> s \<in> S \<Longrightarrow>
           reachable S (snd (update_booking c i req_body d))"

text \<open>
  Every stored booking has a status from \<open>S\<close>; a file that is absent or was left
  unparsable by a failed write holds no booking.
\<close>

definition statuses_within :: "string set \<Rightarrow> disk \<Rightarrow> bool" where
  "statuses_within S d =
     (bookingsFile d = Absent \<or> bookingsFile d = Garbage
      \<or> (\<exists>bookings. bookingsFile d = Doc (JArr bookings)
            \<and> (\<forall>b\<in>set bookings. \<exists>s\<in>S. get b ''status'' = Inr (Some (JStr s)))))"

subsection \<open>Example requests and states\<close>

text \<open>
  The booking request of the specification's scenario, a second guest's request, the clock
  readings of two moments, and the states of the data directory used as concrete inputs:
  no file yet, one and two stored bookings, two stored bookings with the same id, a file
  that cannot be opened for writing, a volume on which a write fails after the truncation,
  and a file that is not JSON.
\<close>

definition jane :: req_body where
  "jane = [(''fullName'', JStr ''Jane Doe''), (''email'', JStr ''jane@x.com''),
           (''phone'', JStr ''5551234567''), (''checkIn'', JStr ''2025-06-01''),
           (''checkOut'', JStr ''2025-06-03'')]"

definition john :: req_body where
  "john = [(''fullName'', JStr ''John Roe''), (''email'', JStr ''john@x.com''),
           (''phone'', JStr ''5557654321''), (''checkIn'', JStr ''2025-07-10''),
           (''checkOut'', JStr ''2025-07-12''), (''message'', JStr ''Late arrival''),
           (''totalPrice'', JNum 398)]"

definition noon :: clock where
  "noon = \<lparr>Date_now = 1748779200000, toISOString = ''2025-06-01T12:00:00.000Z''\<rparr>"

definition one_pm :: clock where
  "one_pm = \<lparr>Date_now = 1748782800000, toISOString = ''2025-06-01T13:00:00.000Z''\<rparr>"

definition fresh_disk :: disk where
  "fresh_disk =
     \<lparr>bookingsFile = Absent, can_mkdir = True, can_write = True, cut_short = False\<rparr>"

definition janes_booking :: json where
  "janes_booking = JObj
     [(''id'', JStr ''1748779200000''), (''fullName'', JStr ''Jane Doe''),
      (''email'', JStr ''jane@x.com''), (''phone'', JStr ''5551234567''),
      (''checkIn'', JStr ''2025-06-01''), (''checkOut'', JStr ''2025-06-03''),
      (''message'', JStr []), (''status'', JStr ''pending''),
      (''createdAt'', JStr ''2025-06-01T12:00:00.000Z'')]"

definition johns_booking :: json where
  "johns_booking = JObj
     [(''id'', JStr ''1748779200000''), (''fullName'', JStr ''John Roe''),
      (''email'', JStr ''john@x.com''), (''phone'', JStr ''5557654321''),
      (''checkIn'', JStr ''2025-07-10''), (''checkOut'', JStr ''2025-07-12''),
      (''message'', JStr ''Late arrival''), (''totalPrice'', JNum 398),
      (''status'', JStr ''pending''),
      (''createdAt'', JStr ''2025-06-01T12:00:00.000Z'')]"

definition archived_booking :: json where
  "archived_booking = JObj
     [(''id'', JStr ''1748779200000''), (''fullName'', JStr ''Jane Doe''),
      (''email'', JStr ''jane@x.com''), (''phone'', JStr ''5551234567''),
      (''checkIn'', JStr ''2025-06-01''), (''checkOut'', JStr ''2025-06-03''),
      (''message'', JStr []), (''status'', JStr ''archived''),
      (''createdAt'', JStr ''2025-06-01T12:00:00.000Z''),
      (''updatedAt'', JStr ''2025-06-01T13:00:00.000Z'')]"

definition johns_later_booking :: json where
  "johns_later_booking = JObj
     [(''id'', JStr ''1748782800000''), (''fullName'', JStr ''John Roe''),
      (''email'', JStr ''john@x.com''), (''phone'', JStr ''5557654321''),
      (''checkIn'', JStr ''2025-07-10''), (''checkOut'', JStr ''2025-07-12''),
      (''message'', JStr ''Late arrival''), (''totalPrice'', JNum 398),
      (''status'', JStr ''pending''),
      (''createdAt'', JStr ''2025-06-01T13:00:00.000Z'')]"

definition one_booking :: disk where
  "one_booking =
     \<lparr>bookingsFile = Doc (JArr [janes_booking]), can_mkdir = True, can_write = True,
      cut_short = False\<rparr>"

definition two_bookings :: disk where
  "two_bookings =
     \<lparr>bookingsFile = Doc (JArr [janes_booking, johns_later_booking]), can_mkdir = True,
      can_write = True, cut_short = False\<rparr>"

definition twins :: disk where
  "twins =
     \<lparr>bookingsFile = Doc (JArr [janes_booking, johns_booking]), can_mkdir = True,
      can_write = True, cut_short = False\<rparr>"

definition read_only :: disk where
  "read_only =
     \<lparr>bookingsFile = Doc (JArr [janes_booking]), can_mkdir = True, can_write = False,
      cut_short = False\<rparr>"

definition full_volume :: disk where
  "full_volume =
     \<lparr>bookingsFile = Doc (JArr [janes_booking, johns_later_booking]), can_mkdir = True,
      can_write = False, cut_short = True\<rparr>"

definition corrupt :: disk where
  "corrupt =
     \<lparr>bookingsFile = Garbage, can_mkdir = True, can_write = True, cut_short = False\<rparr>"

section \<open>Properties\<close>

subsection \<open>The guard's header parsing\<close>

lemma split_sp_not_Nil: "split_sp s \<noteq> []"
  by (induction s) (auto split: list.splits)

lemma split_sp_no_space: "CHR '' '' \<notin> set a \<Longrightarrow> split_sp a = [a]"
  by (induction a) auto

lemma split_sp_append_space:
  "CHR '' '' \<notin> set a \<Longrightarrow> split_sp (a @ CHR '' '' # b) = a # split_sp b"
  by (induction a) auto

lemma auth_cases:
  "auth authorization =
     (case authorization of
        None \<Rightarrow> Reply (Response 401 (JObj [(''message'', JStr ''Unauthorized: No credentials provided'')]))
      | Some h \<Rightarrow>
          if at_index (split_sp h) 1 = Some ''Password1'' then Next
          else Reply (Response 403 (JObj [(''message'', JStr ''Forbidden: Invalid credentials'')])))"
  by (simp add: auth_def Let_def split: option.splits)

subsection \<open>JavaScript values and serialisation\<close>

lemma truthy_string: "truthy (Some (JStr s)) = (s \<noteq> [])"
  by simp

lemma falsy_missing_or_empty: "v = None \<or> v = Some (JStr []) \<Longrightarrow> \<not> truthy v"
  by auto

lemma stringify_in_memory: "stringify_props (in_memory ps) = ps"
  by (induction ps) (auto simp: in_memory_def)

lemma map_of_stringify_Cons:
  "map_of (stringify_props ((k', x) # ps)) k =
     (if k' = k \<and> x \<noteq> None then x else map_of (stringify_props ps) k)"
  by (cases x) auto

lemma map_of_stringify_assign_other:
  "k \<noteq> a \<Longrightarrow> map_of (stringify_props (assign a v ps)) k = map_of (stringify_props ps) k"
  by (induction ps) (auto simp: map_of_stringify_Cons simp del: stringify_props.simps)

lemma map_of_stringify_assign_same:
  "map_of (stringify_props (assign k (Some v) ps)) k = Some v"
  by (induction ps) (auto simp: map_of_stringify_Cons simp del: stringify_props.simps)

lemma get_set_status_other:
  "k \<noteq> ''status'' \<Longrightarrow> k \<noteq> ''updatedAt'' \<Longrightarrow> get (set_status st now b) k = get b k"
  by (cases b)
     (simp_all add: set_status_def JSON_stringify_obj_def map_of_stringify_assign_other
        stringify_in_memory)

lemma get_set_status_status:
  "get (set_status (Some v) now (JObj ps)) ''status'' = Inr (Some v)"
  by (simp add: set_status_def JSON_stringify_obj_def map_of_stringify_assign_other
        map_of_stringify_assign_same)

lemma get_set_status_updatedAt:
  "get (set_status st now (JObj ps)) ''updatedAt'' = Inr (Some (JStr now))"
  by (simp add: set_status_def JSON_stringify_obj_def map_of_stringify_assign_same)

lemma get_id_is_object: "get b ''id'' = Inr (Some v) \<Longrightarrow> \<exists>ps. b = JObj ps"
  by (cases b) auto

lemma get_newBooking:
  "get (JSON_stringify_obj (newBooking c req_body)) ''id'' = Inr (Some (JStr (toString (Date_now c))))"
  "get (JSON_stringify_obj (newBooking c req_body)) ''status'' = Inr (Some (JStr ''pending''))"
  "get (JSON_stringify_obj (newBooking c req_body)) ''createdAt'' = Inr (Some (JStr (toISOString c)))"
  "get (JSON_stringify_obj (newBooking c req_body)) ''message'' = Inr (Some (or_empty (map_of req_body ''message'')))"
  "get (JSON_stringify_obj (newBooking c req_body)) ''updatedAt'' = Inr None"
  by (simp_all add: JSON_stringify_obj_def newBooking_def map_of_stringify_Cons
      del: stringify_props.simps(2,3))

lemma get_newBooking_copied:
  "get (JSON_stringify_obj (newBooking c req_body)) ''fullName'' = Inr (map_of req_body ''fullName'')"
  "get (JSON_stringify_obj (newBooking c req_body)) ''email'' = Inr (map_of req_body ''email'')"
  "get (JSON_stringify_obj (newBooking c req_body)) ''phone'' = Inr (map_of req_body ''phone'')"
  "get (JSON_stringify_obj (newBooking c req_body)) ''checkIn'' = Inr (map_of req_body ''checkIn'')"
  "get (JSON_stringify_obj (newBooking c req_body)) ''checkOut'' = Inr (map_of req_body ''checkOut'')"
  "get (JSON_stringify_obj (newBooking c req_body)) ''totalPrice'' = Inr (map_of req_body ''totalPrice'')"
  by (simp_all add: JSON_stringify_obj_def newBooking_def map_of_stringify_Cons
      del: stringify_props.simps(2,3))

subsection \<open>The data directory\<close>

lemma ensure_present: "bookingsFile d \<noteq> Absent \<Longrightarrow> ensureDataDirExists d = d"
  by (cases "bookingsFile d") (simp_all add: ensureDataDirExists_def)

lemma ensure_idem: "ensureDataDirExists (ensureDataDirExists d) = ensureDataDirExists d"
  by (cases "bookingsFile d") (simp_all add: ensureDataDirExists_def writeFile_def)

lemma ensure_flags:
  "can_mkdir (ensureDataDirExists d) = can_mkdir d"
  "can_write (ensureDataDirExists d) = can_write d"
  "cut_short (ensureDataDirExists d) = cut_short d"
  by (cases "bookingsFile d"; simp add: ensureDataDirExists_def writeFile_def)+

lemma ensure_absent:
  "bookingsFile d = Absent \<Longrightarrow> can_mkdir d \<Longrightarrow> can_write d \<Longrightarrow>
   ensureDataDirExists d = d\<lparr>bookingsFile := Doc (JArr [])\<rparr>"
  by (simp add: ensureDataDirExists_def writeFile_def)

lemma ensure_file:
  "bookingsFile (ensureDataDirExists d) = bookingsFile d
   \<or> bookingsFile d = Absent
      \<and> (bookingsFile (ensureDataDirExists d) = Doc (JArr [])
          \<or> bookingsFile (ensureDataDirExists d) = Garbage)"
  by (cases "bookingsFile d") (simp_all add: ensureDataDirExists_def writeFile_def)

subsection \<open>Searching the collection\<close>

lemma first_with:
  assumes "\<exists>b\<in>set bs. P b"
  shows "\<exists>n<length bs. P (bs ! n) \<and> (\<forall>j<n. \<not> P (bs ! j))"
proof -
  from assms obtain m where m: "m < length bs \<and> P (bs ! m)"
    by (auto simp: in_set_conv_nth)
  let ?n = "LEAST n. n < length bs \<and> P (bs ! n)"
  have "?n < length bs \<and> P (bs ! ?n)"
    using m by (rule LeastI)
  moreover have "\<not> P (bs ! j)" if "j < ?n" for j
  proof -
    from that have "\<not> (j < length bs \<and> P (bs ! j))"
      by (rule not_less_Least)
    moreover from that \<open>?n < length bs \<and> P (bs ! ?n)\<close> have "j < length bs"
      by simp
    ultimately show ?thesis by simp
  qed
  ultimately show ?thesis by blast
qed

lemma findIndex_Some:
  "findIndex_id i bs = Inr (Some n) \<Longrightarrow>
   n < length bs \<and> get (bs ! n) ''id'' = Inr (Some (JStr i))
   \<and> (\<forall>j<n. get (bs ! j) ''id'' \<noteq> Inr (Some (JStr i)))"
proof (induction bs arbitrary: n)
  case Nil
  then show ?case by simp
next
  case (Cons b bs)
  show ?case
  proof (cases "get b ''id'' = Inr (Some (JStr i))")
    case True
    with Cons.prems show ?thesis by simp
  next
    case False
    with Cons.prems obtain m where m: "findIndex_id i bs = Inr (Some m)" "n = Suc m"
      by (auto split: sum.splits option.splits if_splits)
    from Cons.IH [OF m(1)] False m(2) show ?thesis
      by (auto simp: less_Suc_eq_0_disj)
  qed
qed

lemma findIndex_None:
  "findIndex_id i bs = Inr None \<longleftrightarrow>
   (JNull \<notin> set bs \<and> (\<forall>b\<in>set bs. get b ''id'' \<noteq> Inr (Some (JStr i))))"
proof (induction bs)
  case Nil
  then show ?case by simp
next
  case (Cons b bs)
  show ?case
  proof (cases b)
    case JNull
    then show ?thesis by simp
  qed (use Cons.IH in \<open>auto split: sum.splits option.splits\<close>)
qed

lemma findIndex_found:
  "JNull \<notin> set bs \<Longrightarrow> \<exists>b\<in>set bs. get b ''id'' = Inr (Some (JStr i)) \<Longrightarrow>
   \<exists>n. findIndex_id i bs = Inr (Some n)"
proof (induction bs)
  case Nil
  then show ?case by simp
next
  case (Cons b bs)
  show ?case
  proof (cases "get b ''id'' = Inr (Some (JStr i))")
    case True
    then show ?thesis by simp
  next
    case False
    with Cons.prems have "JNull \<notin> set bs" "\<exists>b\<in>set bs. get b ''id'' = Inr (Some (JStr i))" "b \<noteq> JNull"
      by auto
    with Cons.IH obtain m where "findIndex_id i bs = Inr (Some m)" by blast
    with False \<open>b \<noteq> JNull\<close> show ?thesis
      by (cases b) (auto split: sum.splits)
  qed
qed

subsection \<open>What the handlers compute\<close>

lemma update_booking_found:
  assumes "bookingsFile d = Doc (JArr bookings)"
    and "findIndex_id i bookings = Inr (Some n)"
  shows "update_booking c i req_body d =
     (if can_write d
      then (Response 200
              (JObj [(''success'', JBool True),
                     (''booking'',
                      set_status (map_of req_body ''status'') (toISOString c) (bookings ! n)),
                     (''message'', JStr ''Booking status updated successfully'')]),
            d\<lparr>bookingsFile := Doc (JArr (bookings[n :=
                 set_status (map_of req_body ''status'') (toISOString c) (bookings ! n)]))\<rparr>)
      else (server_error ''Error updating booking'',
            if cut_short d then d\<lparr>bookingsFile := Garbage\<rparr> else d))"
proof -
  have "ensureDataDirExists d = d"
    using assms(1) by (simp add: ensure_present)
  moreover have "read_bookings d = Inr (JArr bookings)"
    using assms(1) by (simp add: read_bookings_def)
  ultimately show ?thesis
    using assms(2) by (simp add: update_booking_def writeFile_def Let_def)
qed

lemma update_booking_throws:
  assumes "bookingsFile d = Doc (JArr bookings)"
    and "findIndex_id i bookings = Inl e"
  shows "update_booking c i req_body d = (server_error ''Error updating booking'', d)"
proof -
  have "ensureDataDirExists d = d"
    using assms(1) by (simp add: ensure_present)
  moreover have "read_bookings d = Inr (JArr bookings)"
    using assms(1) by (simp add: read_bookings_def)
  ultimately show ?thesis
    using assms(2) by (simp add: update_booking_def)
qed

lemma create_booking_invalid:
  assumes "\<not> truthy (map_of req_body ''fullName'') \<or> \<not> truthy (map_of req_body ''email'')
      \<or> \<not> truthy (map_of req_body ''phone'') \<or> \<not> truthy (map_of req_body ''checkIn'')
      \<or> \<not> truthy (map_of req_body ''checkOut'')"
  shows "create_booking c req_body d =
     (Response 400 (JObj [(''message'', JStr ''Required fields are missing'')]),
      ensureDataDirExists d)"
  using assms by (auto simp add: create_booking_def Let_def)

lemma create_booking_valid:
  assumes "truthy (map_of req_body ''fullName'')" "truthy (map_of req_body ''email'')"
    "truthy (map_of req_body ''phone'')" "truthy (map_of req_body ''checkIn'')"
    "truthy (map_of req_body ''checkOut'')"
  shows "create_booking c req_body d =
     (case read_bookings (ensureDataDirExists d) of
        Inr (JArr bookings) \<Rightarrow>
          if can_write d
          then (Response 201
                  (JObj [(''message'', JStr ''Booking request received successfully''),
                         (''booking'', JSON_stringify_obj (newBooking c req_body))]),
                (ensureDataDirExists d)\<lparr>bookingsFile :=
                   Doc (JArr (bookings @ [JSON_stringify_obj (newBooking c req_body)]))\<rparr>)
          else (server_error ''Error saving booking request'',
                if cut_short d then (ensureDataDirExists d)\<lparr>bookingsFile := Garbage\<rparr>
                else ensureDataDirExists d)
      | _ \<Rightarrow> (server_error ''Error saving booking request'', ensureDataDirExists d))"
  using assms
  by (simp add: create_booking_def Let_def writeFile_def ensure_flags
      split: sum.splits json.splits)

lemma create_booking_shape:
  "snd (create_booking c req_body d) = ensureDataDirExists d
   \<or> snd (create_booking c req_body d) = (ensureDataDirExists d)\<lparr>bookingsFile := Garbage\<rparr>
   \<or> (\<exists>bookings. bookingsFile (ensureDataDirExists d) = Doc (JArr bookings)
        \<and> snd (create_booking c req_body d) =
            (ensureDataDirExists d)\<lparr>bookingsFile :=
               Doc (JArr (bookings @ [JSON_stringify_obj (newBooking c req_body)]))\<rparr>)"
proof (cases "truthy (map_of req_body ''fullName'') \<and> truthy (map_of req_body ''email'')
    \<and> truthy (map_of req_body ''phone'') \<and> truthy (map_of req_body ''checkIn'')
    \<and> truthy (map_of req_body ''checkOut'')")
  case False
  then have "create_booking c req_body d =
     (Response 400 (JObj [(''message'', JStr ''Required fields are missing'')]),
      ensureDataDirExists d)"
    by (intro create_booking_invalid) blast
  then show ?thesis by simp
next
  case True
  note valid = create_booking_valid [of req_body c d]
  show ?thesis
  proof (cases "bookingsFile (ensureDataDirExists d)")
    case (Doc v)
    then show ?thesis
      using True valid by (cases v) (auto simp: read_bookings_def)
  qed (use True valid in \<open>auto simp: read_bookings_def\<close>)
qed

lemma update_booking_shape:
  "snd (update_booking c i req_body d) = ensureDataDirExists d
   \<or> snd (update_booking c i req_body d) = (ensureDataDirExists d)\<lparr>bookingsFile := Garbage\<rparr>
   \<or> (\<exists>bookings n. bookingsFile (ensureDataDirExists d) = Doc (JArr bookings)
        \<and> findIndex_id i bookings = Inr (Some n)
        \<and> snd (update_booking c i req_body d) =
            (ensureDataDirExists d)\<lparr>bookingsFile :=
               Doc (JArr (bookings[n :=
                 set_status (map_of req_body ''status'') (toISOString c) (bookings ! n)]))\<rparr>)"
  by (auto simp: update_booking_def read_bookings_def writeFile_def Let_def
      split: file_state.splits json.splits sum.splits option.splits)

text \<open>
  Fetching by the id of a booking just created gives that booking when no stored booking
  already carries the id.
\<close>

lemma find_id_appended:
  assumes "JNull \<notin> set bs"
    and "\<forall>b\<in>set bs. get b ''id'' \<noteq> Inr (Some (JStr i))"
    and "get b ''id'' = Inr (Some (JStr i))"
  shows "find_id i (bs @ [b]) = Inr (Some b)"
  using assms
proof (induction bs)
  case Nil
  then show ?case by simp
next
  case (Cons a bs)
  then show ?case
    by (cases a) auto
qed

lemma get_booking_after_create:
  assumes "truthy (map_of req_body ''fullName'')" "truthy (map_of req_body ''email'')"
    "truthy (map_of req_body ''phone'')" "truthy (map_of req_body ''checkIn'')"
    "truthy (map_of req_body ''checkOut'')"
    and "bookingsFile d = Doc (JArr bookings)"
    and "can_write d"
    and "JNull \<notin> set bookings"
    and "\<forall>b\<in>set bookings. get b ''id'' \<noteq> Inr (Some (JStr (toString (Date_now c))))"
  shows "fst (create_booking c req_body d) =
           Response 201
             (JObj [(''message'', JStr ''Booking request received successfully''),
                    (''booking'', JSON_stringify_obj (newBooking c req_body))])
       \<and> fst (get_booking (toString (Date_now c)) (snd (create_booking c req_body d))) =
           Response 200 (JSON_stringify_obj (newBooking c req_body))"
proof -
  let ?b = "JSON_stringify_obj (newBooking c req_body)"
  let ?d = "d\<lparr>bookingsFile := Doc (JArr (bookings @ [?b]))\<rparr>"
  have e: "ensureDataDirExists d = d"
    using assms(6) by (simp add: ensure_present)
  have "read_bookings d = Inr (JArr bookings)"
    using assms(6) by (simp add: read_bookings_def)
  then have created: "create_booking c req_body d =
      (Response 201
         (JObj [(''message'', JStr ''Booking request received successfully''),
                (''booking'', ?b)]), ?d)"
    using create_booking_valid [OF assms(1-5), of c d] assms(7) e by simp
  have "find_id (toString (Date_now c)) (bookings @ [?b]) = Inr (Some ?b)"
    using assms(8,9) by (intro find_id_appended) (simp_all add: get_newBooking)
  moreover have "ensureDataDirExists ?d = ?d"
    by (simp add: ensure_present)
  moreover have "read_bookings ?d = Inr (JArr (bookings @ [?b]))"
    by (simp add: read_bookings_def)
  ultimately have "get_booking (toString (Date_now c)) ?d = (Response 200 ?b, ?d)"
    by (simp add: get_booking_def JSON_stringify_obj_def)
  with created show ?thesis
    by simp
qed

subsection \<open>Statuses along a sequence of requests\<close>

lemma statuses_within_ensure:
  "statuses_within S d \<Longrightarrow> statuses_within S (ensureDataDirExists d)"
  using ensure_file [of d] by (auto simp: statuses_within_def)

lemma statuses_within_create:
  assumes "statuses_within S d" and "''pending'' \<in> S"
  shows "statuses_within S (snd (create_booking c req_body d))"
proof -
  note e = statuses_within_ensure [OF assms(1)]
  consider (same) "snd (create_booking c req_body d) = ensureDataDirExists d"
    | (cut) "snd (create_booking c req_body d) =
              (ensureDataDirExists d)\<lparr>bookingsFile := Garbage\<rparr>"
    | (stored) bookings where "bookingsFile (ensureDataDirExists d) = Doc (JArr bookings)"
        "snd (create_booking c req_body d) =
            (ensureDataDirExists d)\<lparr>bookingsFile :=
               Doc (JArr (bookings @ [JSON_stringify_obj (newBooking c req_body)]))\<rparr>"
    using create_booking_shape [of c req_body d] by blast
  then show ?thesis
  proof cases
    case same
    with e show ?thesis by simp
  next
    case cut
    then show ?thesis by (simp add: statuses_within_def)
  next
    case stored
    from e stored(1) have "\<forall>b\<in>set bookings. \<exists>s\<in>S. get b ''status'' = Inr (Some (JStr s))"
      by (simp add: statuses_within_def)
    then show ?thesis
      using assms(2) by (auto simp: statuses_within_def stored(2) get_newBooking)
  qed
qed

lemma statuses_within_update:
  assumes "statuses_within S d" and "map_of req_body ''status'' = Some (JStr s)" and "s \<in> S"
  shows "statuses_within S (snd (update_booking c i req_body d))"
proof -
  note e = statuses_within_ensure [OF assms(1)]
  consider (same) "snd (update_booking c i req_body d) = ensureDataDirExists d"
    | (cut) "snd (update_booking c i req_body d) =
              (ensureDataDirExists d)\<lparr>bookingsFile := Garbage\<rparr>"
    | (stored) bookings n where "bookingsFile (ensureDataDirExists d) = Doc (JArr bookings)"
        "findIndex_id i bookings = Inr (Some n)"
        "snd (update_booking c i req_body d) =
            (ensureDataDirExists d)\<lparr>bookingsFile :=
               Doc (JArr (bookings[n :=
                 set_status (Some (JStr s)) (toISOString c) (bookings ! n)]))\<rparr>"
    using update_booking_shape [of c i req_body d] assms(2) by auto
  then show ?thesis
  proof cases
    case same
    with e show ?thesis by simp
  next
    case cut
    then show ?thesis by (simp add: statuses_within_def)
  next
    case stored
    from findIndex_Some [OF stored(2)] obtain ps where ps: "bookings ! n = JObj ps"
      using get_id_is_object by blast
    have new: "get (set_status (Some (JStr s)) (toISOString c) (bookings ! n)) ''status''
        = Inr (Some (JStr s))"
      by (simp add: ps get_set_status_status)
    from e stored(1) have old: "\<forall>b\<in>set bookings. \<exists>s\<in>S. get b ''status'' = Inr (Some (JStr s))"
      by (simp add: statuses_within_def)
    have "\<forall>b\<in>set (bookings[n := set_status (Some (JStr s)) (toISOString c) (bookings ! n)]).
        \<exists>s\<in>S. get b ''status'' = Inr (Some (JStr s))"
    proof
      fix x
      assume "x \<in> set (bookings[n := set_status (Some (JStr s)) (toISOString c) (bookings ! n)])"
      then have "x = set_status (Some (JStr s)) (toISOString c) (bookings ! n) \<or> x \<in> set bookings"
        using set_update_subset_insert by fastforce
      then show "\<exists>s\<in>S. get x ''status'' = Inr (Some (JStr s))"
        using new old assms(3) by blast
    qed
    then show ?thesis
      by (simp add: statuses_within_def stored(3))
  qed
qed

subsection \<open>The examples evaluated\<close>

lemma toString_noon: "toString 1748779200000 = ''1748779200000''"
  by (simp add: toString.simps digit_def)

lemma jane_truthy:
  "truthy (map_of jane ''fullName'')" "truthy (map_of jane ''email'')"
  "truthy (map_of jane ''phone'')" "truthy (map_of jane ''checkIn'')"
  "truthy (map_of jane ''checkOut'')"
  by (simp_all add: jane_def)

lemma janes_booking_id: "get janes_booking ''id'' = Inr (Some (JStr ''1748779200000''))"
  by (simp add: janes_booking_def)

lemma one_booking_file: "bookingsFile one_booking = Doc (JArr [janes_booking])"
  by (simp add: one_booking_def)

lemma fresh_one_booking: "fresh_disk\<lparr>bookingsFile := Doc (JArr [janes_booking])\<rparr> = one_booking"
  by (simp add: fresh_disk_def one_booking_def)

lemma create_jane:
  "create_booking noon jane fresh_disk =
     (Response 201 (JObj [(''message'', JStr ''Booking request received successfully''),
                          (''booking'', janes_booking)]),
      fresh_disk\<lparr>bookingsFile := Doc (JArr [janes_booking])\<rparr>)"
  by (simp add: create_booking_def jane_def noon_def fresh_disk_def janes_booking_def
      ensureDataDirExists_def writeFile_def read_bookings_def newBooking_def or_empty_def
      JSON_stringify_obj_def toString_noon Let_def)

lemma create_john:
  "create_booking noon john one_booking =
     (Response 201 (JObj [(''message'', JStr ''Booking request received successfully''),
                          (''booking'', johns_booking)]),
      one_booking\<lparr>bookingsFile := Doc (JArr [janes_booking, johns_booking])\<rparr>)"
  by (simp add: create_booking_def john_def noon_def one_booking_def johns_booking_def
      ensureDataDirExists_def writeFile_def read_bookings_def newBooking_def or_empty_def
      JSON_stringify_obj_def toString_noon Let_def)

lemma archive_jane:
  "update_booking one_pm ''1748779200000'' [(''status'', JStr ''archived'')] one_booking =
     (Response 200 (JObj [(''success'', JBool True), (''booking'', archived_booking),
                          (''message'', JStr ''Booking status updated successfully'')]),
      one_booking\<lparr>bookingsFile := Doc (JArr [archived_booking])\<rparr>)"
  by (simp add: update_booking_def one_pm_def one_booking_def janes_booking_def
      archived_booking_def ensureDataDirExists_def writeFile_def read_bookings_def
      set_status_def in_memory_def JSON_stringify_obj_def Let_def)

section \<open>The claims\<close>

subsection \<open>C1: a create request with every required field\<close>

text \<open>
  C1, as stated, says that every create request whose fields fullName, email, phone,
  checkIn and checkOut are present and non-empty is answered 201. The handler reads and
  rewrites data/bookings.json inside its \<^verbatim>\<open>try\<close> block: with the scenario's request
  and a file whose text is not JSON, \<^verbatim>\<open>JSON.parse\<close> throws and the answer is 500.
\<close>

theorem create_fails_on_corrupt_file:
  "truthy (map_of jane ''fullName'') \<and> truthy (map_of jane ''email'')
   \<and> truthy (map_of jane ''phone'') \<and> truthy (map_of jane ''checkIn'')
   \<and> truthy (map_of jane ''checkOut'')
   \<and> create_booking noon jane corrupt =
       (Response 500 (JObj [(''message'', JStr ''Error saving booking request'')]), corrupt)"
  by (simp add: create_booking_def jane_def corrupt_def ensureDataDirExists_def
      read_bookings_def server_error_def Let_def)

text \<open>
  C1, amended. For every create request whose fields fullName, email, phone, checkIn and
  checkOut are truthy (for a string: present and non-empty, \<open>truthy_string\<close>), if the
  bookings file holds a JSON array (or is absent and its directory can be made) and can
  be written, the handler answers 201 with the created record and appends that record to
  the stored array; the record has status \<^verbatim>\<open>pending\<close>, createdAt equal to the time
  read at creation, the id made from \<^verbatim>\<open>Date.now()\<close>, the five required fields as sent,
  and the empty string as message when the request has none.
\<close>

theorem create_succeeds:
  assumes "truthy (map_of req_body ''fullName'')" "truthy (map_of req_body ''email'')"
    "truthy (map_of req_body ''phone'')" "truthy (map_of req_body ''checkIn'')"
    "truthy (map_of req_body ''checkOut'')"
    and "bookingsFile d = Doc (JArr bookings)
         \<or> bookingsFile d = Absent \<and> can_mkdir d \<and> bookings = []"
    and "can_write d"
  shows "\<exists>booking.
           create_booking c req_body d =
             (Response 201
                (JObj [(''message'', JStr ''Booking request received successfully''),
                       (''booking'', booking)]),
              d\<lparr>bookingsFile := Doc (JArr (bookings @ [booking]))\<rparr>)
         \<and> get booking ''status'' = Inr (Some (JStr ''pending''))
         \<and> get booking ''createdAt'' = Inr (Some (JStr (toISOString c)))
         \<and> get booking ''id'' = Inr (Some (JStr (toString (Date_now c))))
         \<and> (map_of req_body ''message'' = None \<longrightarrow>
              get booking ''message'' = Inr (Some (JStr [])))
         \<and> (\<forall>k\<in>{''fullName'', ''email'', ''phone'', ''checkIn'', ''checkOut''}.
              get booking k = Inr (map_of req_body k))"
proof -
  have init: "ensureDataDirExists d = d\<lparr>bookingsFile := Doc (JArr bookings)\<rparr>"
    using assms(6,7) by (auto simp: ensure_present ensure_absent)
  then have "read_bookings (ensureDataDirExists d) = Inr (JArr bookings)"
    by (simp add: read_bookings_def)
  then have created: "create_booking c req_body d =
      (Response 201
         (JObj [(''message'', JStr ''Booking request received successfully''),
                (''booking'', JSON_stringify_obj (newBooking c req_body))]),
       d\<lparr>bookingsFile := Doc (JArr (bookings @ [JSON_stringify_obj (newBooking c req_body)]))\<rparr>)"
    using create_booking_valid [OF assms(1-5), of c d] assms(7) init by simp
  have message: "map_of req_body ''message'' = None \<longrightarrow>
      get (JSON_stringify_obj (newBooking c req_body)) ''message'' = Inr (Some (JStr []))"
    by (simp add: get_newBooking or_empty_def)
  have copied: "\<forall>k\<in>{''fullName'', ''email'', ''phone'', ''checkIn'', ''checkOut''}.
      get (JSON_stringify_obj (newBooking c req_body)) k = Inr (map_of req_body k)"
    by (simp add: get_newBooking_copied)
  show ?thesis
  proof (intro exI conjI)
    show "create_booking c req_body d =
      (Response 201
         (JObj [(''message'', JStr ''Booking request received successfully''),
                (''booking'', JSON_stringify_obj (newBooking c req_body))]),
       d\<lparr>bookingsFile := Doc (JArr (bookings @ [JSON_stringify_obj (newBooking c req_body)]))\<rparr>)"
      by (rule created)
  qed (use message copied in \<open>simp_all only: get_newBooking\<close>)
qed

theorem create_succeeds_witness:
  "truthy (map_of jane ''fullName'') \<and> truthy (map_of jane ''email'')
   \<and> truthy (map_of jane ''phone'') \<and> truthy (map_of jane ''checkIn'')
   \<and> truthy (map_of jane ''checkOut'') \<and> map_of jane ''message'' = None
   \<and> bookingsFile fresh_disk = Absent \<and> can_mkdir fresh_disk \<and> can_write fresh_disk
   \<and> (\<exists>booking.
         create_booking noon jane fresh_disk =
           (Response 201
              (JObj [(''message'', JStr ''Booking request received successfully''),
                     (''booking'', booking)]),
            fresh_disk\<lparr>bookingsFile := Doc (JArr [booking])\<rparr>)
         \<and> get booking ''status'' = Inr (Some (JStr ''pending''))
         \<and> get booking ''createdAt'' = Inr (Some (JStr (toISOString noon)))
         \<and> get booking ''message'' = Inr (Some (JStr [])))"
proof -
  have absent: "bookingsFile fresh_disk = Absent" "can_mkdir fresh_disk" "can_write fresh_disk"
    by (simp_all add: fresh_disk_def)
  then have store: "bookingsFile fresh_disk = Doc (JArr [])
      \<or> bookingsFile fresh_disk = Absent \<and> can_mkdir fresh_disk \<and> [] = ([] :: json list)"
    by simp
  have nomsg: "map_of jane ''message'' = None"
    by (simp add: jane_def)
  from create_succeeds [OF jane_truthy store absent(3), of noon] nomsg
  have "\<exists>booking.
         create_booking noon jane fresh_disk =
           (Response 201
              (JObj [(''message'', JStr ''Booking request received successfully''),
                     (''booking'', booking)]),
            fresh_disk\<lparr>bookingsFile := Doc (JArr [booking])\<rparr>)
         \<and> get booking ''status'' = Inr (Some (JStr ''pending''))
         \<and> get booking ''createdAt'' = Inr (Some (JStr (toISOString noon)))
         \<and> get booking ''message'' = Inr (Some (JStr []))"
    by auto
  with jane_truthy nomsg absent show ?thesis
    by simp
qed

subsection \<open>C2: the three outcomes of the guard\<close>

text \<open>
  C2. For every request to either guarded admin route (GET /api/admin/bookings and
  PUT /api/admin/bookings/:id): without an Authorization header the guard answers 401, the
  handler does not run and the data directory is untouched; with a header whose second
  space-separated piece is not the secret (or is missing) it answers 403, the handler does
  not run and the data directory is untouched; with a header whose second piece is the
  secret the route behaves as the handler alone. The guard's result is always one of these
  three, and the three differ.
\<close>

theorem guard_three_outcomes:
  "(authorization = None \<longrightarrow>
      auth authorization =
        Reply (Response 401 (JObj [(''message'', JStr ''Unauthorized: No credentials provided'')]))
      \<and> admin_update_booking authorization c i b d =
          (Response 401 (JObj [(''message'', JStr ''Unauthorized: No credentials provided'')]), d)
      \<and> admin_get_bookings authorization d =
          (Response 401 (JObj [(''message'', JStr ''Unauthorized: No credentials provided'')]), d))
   \<and> (\<forall>h. authorization = Some h \<and> at_index (split_sp h) 1 \<noteq> Some ''Password1'' \<longrightarrow>
      auth authorization =
        Reply (Response 403 (JObj [(''message'', JStr ''Forbidden: Invalid credentials'')]))
      \<and> admin_update_booking authorization c i b d =
          (Response 403 (JObj [(''message'', JStr ''Forbidden: Invalid credentials'')]), d)
      \<and> admin_get_bookings authorization d =
          (Response 403 (JObj [(''message'', JStr ''Forbidden: Invalid credentials'')]), d))
   \<and> (\<forall>h. authorization = Some h \<and> at_index (split_sp h) 1 = Some ''Password1'' \<longrightarrow>
      auth authorization = Next
      \<and> admin_update_booking authorization c i b d = update_booking c i b d
      \<and> admin_get_bookings authorization d = get_bookings d)
   \<and> (auth authorization = Next
      \<or> auth authorization =
          Reply (Response 401 (JObj [(''message'', JStr ''Unauthorized: No credentials provided'')]))
      \<or> auth authorization =
          Reply (Response 403 (JObj [(''message'', JStr ''Forbidden: Invalid credentials'')])))
   \<and> Next \<noteq> Reply (Response 401 (JObj [(''message'', JStr ''Unauthorized: No credentials provided'')]))
   \<and> Next \<noteq> Reply (Response 403 (JObj [(''message'', JStr ''Forbidden: Invalid credentials'')]))
   \<and> Reply (Response 401 (JObj [(''message'', JStr ''Unauthorized: No credentials provided'')]))
      \<noteq> Reply (Response 403 (JObj [(''message'', JStr ''Forbidden: Invalid credentials'')]))"
  by (cases authorization)
     (simp_all add: auth_cases admin_update_booking_def admin_get_bookings_def)

theorem guard_three_outcomes_witness:
  "auth None = Reply (Response 401 (JObj [(''message'', JStr ''Unauthorized: No credentials provided'')]))
   \<and> admin_get_bookings None one_booking =
       (Response 401 (JObj [(''message'', JStr ''Unauthorized: No credentials provided'')]), one_booking)
   \<and> admin_update_booking None one_pm ''1748779200000'' [(''status'', JStr ''confirmed'')] one_booking =
       (Response 401 (JObj [(''message'', JStr ''Unauthorized: No credentials provided'')]), one_booking)
   \<and> auth (Some ''Bearer wrong'') = Reply (Response 403 (JObj [(''message'', JStr ''Forbidden: Invalid credentials'')]))
   \<and> admin_get_bookings (Some ''Bearer wrong'') one_booking =
       (Response 403 (JObj [(''message'', JStr ''Forbidden: Invalid credentials'')]), one_booking)
   \<and> admin_update_booking (Some ''Bearer wrong'') one_pm ''1748779200000''
         [(''status'', JStr ''confirmed'')] one_booking =
       (Response 403 (JObj [(''message'', JStr ''Forbidden: Invalid credentials'')]), one_booking)
   \<and> auth (Some ''Bearer'') = Reply (Response 403 (JObj [(''message'', JStr ''Forbidden: Invalid credentials'')]))
   \<and> auth (Some ''Bearer Password1'') = Next
   \<and> admin_get_bookings (Some ''Bearer Password1'') one_booking = get_bookings one_booking
   \<and> admin_update_booking (Some ''Bearer Password1'') one_pm ''1748779200000''
         [(''status'', JStr ''confirmed'')] one_booking =
       update_booking one_pm ''1748779200000'' [(''status'', JStr ''confirmed'')] one_booking"
proof -
  have wrong: "at_index (split_sp ''Bearer wrong'') 1 \<noteq> Some ''Password1''"
    by (simp add: at_index_def)
  have missing: "at_index (split_sp ''Bearer'') 1 \<noteq> Some ''Password1''"
    by (simp add: at_index_def)
  have right: "at_index (split_sp ''Bearer Password1'') 1 = Some ''Password1''"
    by (simp add: at_index_def)
  note absent_header = guard_three_outcomes [of None one_pm "''1748779200000''"
      "[(''status'', JStr ''confirmed'')]" one_booking]
  note wrong_token = guard_three_outcomes [of "Some ''Bearer wrong''" one_pm "''1748779200000''"
      "[(''status'', JStr ''confirmed'')]" one_booking]
  note right_token = guard_three_outcomes [of "Some ''Bearer Password1''" one_pm
      "''1748779200000''" "[(''status'', JStr ''confirmed'')]" one_booking]
  have "auth None = Reply (Response 401 (JObj [(''message'', JStr ''Unauthorized: No credentials provided'')]))"
    "admin_get_bookings None one_booking =
       (Response 401 (JObj [(''message'', JStr ''Unauthorized: No credentials provided'')]), one_booking)"
    "admin_update_booking None one_pm ''1748779200000'' [(''status'', JStr ''confirmed'')] one_booking =
       (Response 401 (JObj [(''message'', JStr ''Unauthorized: No credentials provided'')]), one_booking)"
    using absent_header by simp_all
  moreover have "auth (Some ''Bearer wrong'') = Reply (Response 403 (JObj [(''message'', JStr ''Forbidden: Invalid credentials'')]))"
    "admin_get_bookings (Some ''Bearer wrong'') one_booking =
       (Response 403 (JObj [(''message'', JStr ''Forbidden: Invalid credentials'')]), one_booking)"
    "admin_update_booking (Some ''Bearer wrong'') one_pm ''1748779200000''
         [(''status'', JStr ''confirmed'')] one_booking =
       (Response 403 (JObj [(''message'', JStr ''Forbidden: Invalid credentials'')]), one_booking)"
    using wrong_token wrong by simp_all
  moreover have "auth (Some ''Bearer'') = Reply (Response 403 (JObj [(''message'', JStr ''Forbidden: Invalid credentials'')]))"
    using guard_three_outcomes [of "Some ''Bearer''"] missing by simp
  moreover have "auth (Some ''Bearer Password1'') = Next"
    "admin_get_bookings (Some ''Bearer Password1'') one_booking = get_bookings one_booking"
    "admin_update_booking (Some ''Bearer Password1'') one_pm ''1748779200000''
         [(''status'', JStr ''confirmed'')] one_booking =
       update_booking one_pm ''1748779200000'' [(''status'', JStr ''confirmed'')] one_booking"
    using right_token right by simp_all
  ultimately show ?thesis
    by simp
qed

subsection \<open>C3: what a status update leaves alone\<close>

text \<open>
  C3, as stated, says that for every stored collection and every id present in it the
  update leaves every other booking and every other field as they were. The handler
  rewrites the whole file and there is no temporary file or backup: when the write fails
  after the file was truncated, the answer is 500 and no booking is left in the file.
\<close>

theorem update_cut_short_loses_bookings:
  "bookingsFile full_volume = Doc (JArr [janes_booking, johns_later_booking])
   \<and> get johns_later_booking ''id'' = Inr (Some (JStr ''1748782800000''))
   \<and> update_booking one_pm ''1748782800000'' [(''status'', JStr ''confirmed'')] full_volume =
       (Response 500 (JObj [(''message'', JStr ''Error updating booking'')]),
        full_volume\<lparr>bookingsFile := Garbage\<rparr>)"
  by (simp add: update_booking_def full_volume_def janes_booking_def johns_later_booking_def
      ensureDataDirExists_def read_bookings_def writeFile_def server_error_def Let_def)

text \<open>
  C3, amended. For every stored array and every id that one of its elements carries,
  unless the write of the file fails after truncating it: after the update handler the
  file holds an array of the same length in which every element but one, the first element
  with that id, is the same, and in which that element has the same value as before for
  every property other than status and updatedAt (id, fullName, email, phone, checkIn,
  checkOut, message, totalPrice, createdAt among them). The rest of the state of the data
  directory is the same too.
\<close>

theorem update_frame:
  assumes "bookingsFile d = Doc (JArr bookings)"
    and "\<exists>b\<in>set bookings. get b ''id'' = Inr (Some (JStr i))"
    and "can_write d \<or> \<not> cut_short d"
  shows "\<exists>bookings' n.
           snd (update_booking c i req_body d) = d\<lparr>bookingsFile := Doc (JArr bookings')\<rparr>
         \<and> length bookings' = length bookings
         \<and> n < length bookings
         \<and> get (bookings ! n) ''id'' = Inr (Some (JStr i))
         \<and> (\<forall>j<n. get (bookings ! j) ''id'' \<noteq> Inr (Some (JStr i)))
         \<and> (\<forall>j<length bookings. j \<noteq> n \<longrightarrow> bookings' ! j = bookings ! j)
         \<and> (\<forall>k. k \<noteq> ''status'' \<and> k \<noteq> ''updatedAt'' \<longrightarrow>
                get (bookings' ! n) k = get (bookings ! n) k)"
proof -
  from first_with [OF assms(2)] obtain m where m: "m < length bookings"
      "get (bookings ! m) ''id'' = Inr (Some (JStr i))"
      "\<forall>j<m. get (bookings ! j) ''id'' \<noteq> Inr (Some (JStr i))"
    by blast
  have same: "d\<lparr>bookingsFile := Doc (JArr bookings)\<rparr> = d"
    using assms(1) by simp
  have unchanged: ?thesis if "snd (update_booking c i req_body d) = d"
  proof -
    have "snd (update_booking c i req_body d) = d\<lparr>bookingsFile := Doc (JArr bookings)\<rparr>"
      using that same by simp
    with m show ?thesis by blast
  qed
  show ?thesis
  proof (cases "findIndex_id i bookings")
    case (Inl e)
    then show ?thesis
      using update_booking_throws [OF assms(1)] unchanged by simp
  next
    case (Inr r)
    show ?thesis
    proof (cases r)
      case None
      with Inr assms(2) show ?thesis
        by (simp add: findIndex_None)
    next
      case (Some n)
      with Inr have found: "findIndex_id i bookings = Inr (Some n)"
        by simp
      note at_n = findIndex_Some [OF found]
      show ?thesis
      proof (cases "can_write d")
        case False
        with assms(3) have "\<not> cut_short d"
          by simp
        with False show ?thesis
          using update_booking_found [OF assms(1) found] unchanged by simp
      next
        case True
        let ?b = "set_status (map_of req_body ''status'') (toISOString c) (bookings ! n)"
        have "snd (update_booking c i req_body d)
              = d\<lparr>bookingsFile := Doc (JArr (bookings[n := ?b]))\<rparr>"
          using True update_booking_found [OF assms(1) found] by simp
        moreover have "length (bookings[n := ?b]) = length bookings"
          by simp
        moreover have "\<forall>j<length bookings. j \<noteq> n \<longrightarrow> bookings[n := ?b] ! j = bookings ! j"
          by simp
        moreover have "\<forall>k. k \<noteq> ''status'' \<and> k \<noteq> ''updatedAt'' \<longrightarrow>
                get (bookings[n := ?b] ! n) k = get (bookings ! n) k"
          using at_n by (simp add: get_set_status_other)
        ultimately show ?thesis
          using at_n by blast
      qed
    qed
  qed
qed

theorem update_frame_witness:
  "bookingsFile two_bookings = Doc (JArr [janes_booking, johns_later_booking])
   \<and> get johns_later_booking ''id'' = Inr (Some (JStr ''1748782800000''))
   \<and> can_write two_bookings
   \<and> (\<exists>bookings'.
         snd (update_booking one_pm ''1748782800000'' [(''status'', JStr ''confirmed'')]
                two_bookings)
           = two_bookings\<lparr>bookingsFile := Doc (JArr bookings')\<rparr>
         \<and> length bookings' = 2
         \<and> bookings' ! 0 = janes_booking
         \<and> get (bookings' ! 1) ''fullName'' = get johns_later_booking ''fullName''
         \<and> get (bookings' ! 1) ''createdAt'' = get johns_later_booking ''createdAt'')"
proof -
  have stored: "bookingsFile two_bookings = Doc (JArr [janes_booking, johns_later_booking])"
    and writable: "can_write two_bookings"
    by (simp_all add: two_bookings_def)
  have johns: "get johns_later_booking ''id'' = Inr (Some (JStr ''1748782800000''))"
    by (simp add: johns_later_booking_def)
  have present: "\<exists>b\<in>set [janes_booking, johns_later_booking].
      get b ''id'' = Inr (Some (JStr ''1748782800000''))"
    using johns by simp
  have w: "can_write two_bookings \<or> \<not> cut_short two_bookings"
    using writable by simp
  have "\<exists>bookings' n.
      snd (update_booking one_pm ''1748782800000'' [(''status'', JStr ''confirmed'')]
         two_bookings) = two_bookings\<lparr>bookingsFile := Doc (JArr bookings')\<rparr>
    \<and> length bookings' = length [janes_booking, johns_later_booking]
    \<and> n < length [janes_booking, johns_later_booking]
    \<and> get ([janes_booking, johns_later_booking] ! n) ''id''
        = Inr (Some (JStr ''1748782800000''))
    \<and> (\<forall>j<n. get ([janes_booking, johns_later_booking] ! j) ''id''
          \<noteq> Inr (Some (JStr ''1748782800000'')))
    \<and> (\<forall>j<length [janes_booking, johns_later_booking].
          j \<noteq> n \<longrightarrow> bookings' ! j = [janes_booking, johns_later_booking] ! j)
    \<and> (\<forall>k. k \<noteq> ''status'' \<and> k \<noteq> ''updatedAt'' \<longrightarrow>
          get (bookings' ! n) k = get ([janes_booking, johns_later_booking] ! n) k)"
    by (rule update_frame [OF stored present w])
  then obtain bookings' where "\<exists>n.
      snd (update_booking one_pm ''1748782800000'' [(''status'', JStr ''confirmed'')]
         two_bookings) = two_bookings\<lparr>bookingsFile := Doc (JArr bookings')\<rparr>
    \<and> length bookings' = length [janes_booking, johns_later_booking]
    \<and> n < length [janes_booking, johns_later_booking]
    \<and> get ([janes_booking, johns_later_booking] ! n) ''id''
        = Inr (Some (JStr ''1748782800000''))
    \<and> (\<forall>j<n. get ([janes_booking, johns_later_booking] ! j) ''id''
          \<noteq> Inr (Some (JStr ''1748782800000'')))
    \<and> (\<forall>j<length [janes_booking, johns_later_booking].
          j \<noteq> n \<longrightarrow> bookings' ! j = [janes_booking, johns_later_booking] ! j)
    \<and> (\<forall>k. k \<noteq> ''status'' \<and> k \<noteq> ''updatedAt'' \<longrightarrow>
          get (bookings' ! n) k = get ([janes_booking, johns_later_booking] ! n) k)" ..
  then obtain n where g:
     "snd (update_booking one_pm ''1748782800000'' [(''status'', JStr ''confirmed'')]
         two_bookings) = two_bookings\<lparr>bookingsFile := Doc (JArr bookings')\<rparr>
    \<and> length bookings' = length [janes_booking, johns_later_booking]
    \<and> n < length [janes_booking, johns_later_booking]
    \<and> get ([janes_booking, johns_later_booking] ! n) ''id''
        = Inr (Some (JStr ''1748782800000''))
    \<and> (\<forall>j<n. get ([janes_booking, johns_later_booking] ! j) ''id''
          \<noteq> Inr (Some (JStr ''1748782800000'')))
    \<and> (\<forall>j<length [janes_booking, johns_later_booking].
          j \<noteq> n \<longrightarrow> bookings' ! j = [janes_booking, johns_later_booking] ! j)
    \<and> (\<forall>k. k \<noteq> ''status'' \<and> k \<noteq> ''updatedAt'' \<longrightarrow>
          get (bookings' ! n) k = get ([janes_booking, johns_later_booking] ! n) k)" ..
  note f = g [THEN conjunct1] g [THEN conjunct2, THEN conjunct1]
    g [THEN conjunct2, THEN conjunct2, THEN conjunct1]
    g [THEN conjunct2, THEN conjunct2, THEN conjunct2, THEN conjunct1]
    g [THEN conjunct2, THEN conjunct2, THEN conjunct2, THEN conjunct2, THEN conjunct2,
       THEN conjunct1]
    g [THEN conjunct2, THEN conjunct2, THEN conjunct2, THEN conjunct2, THEN conjunct2,
       THEN conjunct2]
  from f(3) have "n = 0 \<or> n = 1"
    by (simp add: less_Suc_eq)
  moreover have "n \<noteq> 0"
  proof
    assume "n = 0"
    with f(4) have "get janes_booking ''id'' = Inr (Some (JStr ''1748782800000''))"
      by simp
    then show False
      by (simp add: janes_booking_id)
  qed
  ultimately have n: "n = 1"
    by simp
  from f(5) n have first: "bookings' ! 0 = janes_booking"
    by simp
  from f(6) n have "get (bookings' ! 1) ''fullName'' = get johns_later_booking ''fullName''"
    "get (bookings' ! 1) ''createdAt'' = get johns_later_booking ''createdAt''"
    by simp_all
  with f(1,2) first stored johns writable show ?thesis
    by (intro conjI exI [of _ bookings']) simp_all
qed

subsection \<open>C4: a status update for an unknown id\<close>

text \<open>
  C4. For every stored array of bookings (no \<^verbatim>\<open>null\<close> element) and every id that none
  of them carries, the update handler answers 404 and the state of the data directory
  after the call is the state before it.
\<close>

theorem update_unknown_id:
  assumes "bookingsFile d = Doc (JArr bookings)"
    and "JNull \<notin> set bookings"
    and "\<forall>b\<in>set bookings. get b ''id'' \<noteq> Inr (Some (JStr i))"
  shows "update_booking c i req_body d =
           (Response 404 (JObj [(''message'', JStr ''Booking not found'')]), d)"
proof -
  have "ensureDataDirExists d = d"
    using assms(1) by (simp add: ensure_present)
  moreover have "read_bookings d = Inr (JArr bookings)"
    using assms(1) by (simp add: read_bookings_def)
  moreover have "findIndex_id i bookings = Inr None"
    using assms(2,3) by (simp add: findIndex_None)
  ultimately show ?thesis
    by (simp add: update_booking_def)
qed

theorem update_unknown_id_witness:
  "bookingsFile one_booking = Doc (JArr [janes_booking])
   \<and> get janes_booking ''id'' = Inr (Some (JStr ''1748779200000''))
   \<and> update_booking noon ''42'' [(''status'', JStr ''confirmed'')] one_booking =
       (Response 404 (JObj [(''message'', JStr ''Booking not found'')]), one_booking)"
proof -
  have "JNull \<notin> set [janes_booking]"
    by (simp add: janes_booking_def)
  moreover have "\<forall>b\<in>set [janes_booking]. get b ''id'' \<noteq> Inr (Some (JStr ''42''))"
    by (simp add: janes_booking_id)
  ultimately show ?thesis
    using update_unknown_id [OF one_booking_file, of "''42''" noon] one_booking_file
      janes_booking_id
    by simp
qed

subsection \<open>C5: the status values along a sequence of requests\<close>

text \<open>
  C5, as stated, says that after any sequence of create and update requests from the
  empty collection every stored status is one of pending, confirmed, cancelled and
  completed. The update handler stores the status it is sent: after the scenario's create
  request and an update that sends \<^verbatim>\<open>archived\<close>, the stored status is \<^verbatim>\<open>archived\<close>.
\<close>

theorem status_outside_enumeration:
  "reachable UNIV (one_booking\<lparr>bookingsFile := Doc (JArr [archived_booking])\<rparr>)
   \<and> get archived_booking ''status'' = Inr (Some (JStr ''archived''))
   \<and> ''archived'' \<notin> set status_values"
proof -
  have "reachable UNIV fresh_disk"
    by (rule reachable.empty) (simp add: fresh_disk_def)
  then have "reachable UNIV (snd (create_booking noon jane fresh_disk))"
    by (rule reachable.create)
  then have "reachable UNIV one_booking"
    by (simp add: create_jane fresh_one_booking)
  then have "reachable UNIV
      (snd (update_booking one_pm ''1748779200000'' [(''status'', JStr ''archived'')] one_booking))"
    by (rule reachable.update) simp_all
  then have "reachable UNIV (one_booking\<lparr>bookingsFile := Doc (JArr [archived_booking])\<rparr>)"
    by (simp add: archive_jane)
  moreover have "get archived_booking ''status'' = Inr (Some (JStr ''archived''))"
    by (simp add: archived_booking_def)
  moreover have "''archived'' \<notin> set status_values"
    by (simp add: status_values_def)
  ultimately show ?thesis
    by simp
qed

text \<open>
  C5, amended. In every state reached from the empty collection by create requests and by
  update requests whose status is one of pending, confirmed, cancelled and completed,
  every stored booking's status is one of these four values: the file is absent, or was
  left unparsable by a failed write and holds no booking, or holds an array of bookings
  with such statuses.
\<close>

theorem statuses_stay_enumerated:
  assumes "reachable (set status_values) d"
  shows "bookingsFile d = Absent \<or> bookingsFile d = Garbage
      \<or> (\<exists>bookings. bookingsFile d = Doc (JArr bookings)
            \<and> (\<forall>b\<in>set bookings. \<exists>s\<in>set status_values.
                  get b ''status'' = Inr (Some (JStr s))))"
proof -
  have "statuses_within (set status_values) d"
    using assms
  proof (induction rule: reachable.induct)
    case (empty d)
    then show ?case by (auto simp: statuses_within_def)
  next
    case (create d c req_body)
    then show ?case
      by (intro statuses_within_create) (simp_all add: status_values_def)
  next
    case (update d req_body s c i)
    then show ?case
      by (intro statuses_within_update)
  qed
  then show ?thesis
    by (simp add: statuses_within_def)
qed

theorem statuses_stay_enumerated_witness:
  "reachable (set status_values) one_booking
   \<and> bookingsFile one_booking = Doc (JArr [janes_booking])
   \<and> (\<exists>s. s \<in> set status_values \<and> get janes_booking ''status'' = Inr (Some (JStr s)))"
proof -
  have "reachable (set status_values) fresh_disk"
    by (rule reachable.empty) (simp add: fresh_disk_def)
  then have "reachable (set status_values) (snd (create_booking noon jane fresh_disk))"
    by (rule reachable.create)
  then have r: "reachable (set status_values) one_booking"
    by (simp add: create_jane fresh_one_booking)
  from statuses_stay_enumerated [OF r] one_booking_file
  have "\<exists>s. s \<in> set status_values \<and> get janes_booking ''status'' = Inr (Some (JStr s))"
    by auto
  with r one_booking_file show ?thesis
    by simp
qed

subsection \<open>C6: the ids of created bookings\<close>

text \<open>
  C6 says that the ids of the bookings stored by successful create requests are pairwise
  distinct. The id is \<^verbatim>\<open>Date.now().toString()\<close>: two create requests handled in the
  same millisecond, from the empty collection, both answer 201 and store two different
  bookings with the same id.
\<close>

theorem same_millisecond_same_id:
  "create_booking noon jane fresh_disk =
     (Response 201 (JObj [(''message'', JStr ''Booking request received successfully''),
                          (''booking'', janes_booking)]),
      one_booking)
   \<and> create_booking noon john one_booking =
     (Response 201 (JObj [(''message'', JStr ''Booking request received successfully''),
                          (''booking'', johns_booking)]),
      one_booking\<lparr>bookingsFile := Doc (JArr [janes_booking, johns_booking])\<rparr>)
   \<and> get janes_booking ''id'' = Inr (Some (JStr ''1748779200000''))
   \<and> get johns_booking ''id'' = Inr (Some (JStr ''1748779200000''))
   \<and> janes_booking \<noteq> johns_booking"
  by (simp add: create_jane create_john fresh_one_booking)
     (simp add: janes_booking_def johns_booking_def)

theorem same_millisecond_same_id_witness:
  "status_code (fst (create_booking noon jane fresh_disk)) = 201
   \<and> status_code (fst (create_booking noon john (snd (create_booking noon jane fresh_disk)))) = 201
   \<and> bookingsFile (snd (create_booking noon john (snd (create_booking noon jane fresh_disk))))
       = Doc (JArr [janes_booking, johns_booking])
   \<and> get janes_booking ''id'' = get johns_booking ''id''"
  using same_millisecond_same_id by simp

subsection \<open>C7: any string is stored as the status\<close>

text \<open>
  C7, as stated, says that for every id present in the stored collection and every string
  \<open>s\<close> the update succeeds and stores \<open>s\<close>. The handler writes the file back inside
  its \<^verbatim>\<open>try\<close> block: when the file cannot be opened for writing, the answer is 500 and
  the file is as before.
\<close>

theorem update_fails_on_read_only_file:
  "bookingsFile read_only = Doc (JArr [janes_booking])
   \<and> get janes_booking ''id'' = Inr (Some (JStr ''1748779200000''))
   \<and> update_booking noon ''1748779200000'' [(''status'', JStr ''confirmed'')] read_only =
       (Response 500 (JObj [(''message'', JStr ''Error updating booking'')]), read_only)"
  by (simp add: update_booking_def read_only_def janes_booking_def ensureDataDirExists_def
      read_bookings_def writeFile_def server_error_def Let_def)

text \<open>
  C7, amended. For every stored array of bookings (no \<^verbatim>\<open>null\<close> element), every id that
  one of them carries and every string \<open>s\<close> whatsoever (the empty string and strings
  outside the four status values too), if the file can be written, the update handler
  answers 200 with the updated booking and stores it in place of the first booking with
  that id, the rest of the array as it was; its status is \<open>s\<close> as sent, its updatedAt
  the time of the call.
\<close>

theorem update_stores_any_string:
  assumes "bookingsFile d = Doc (JArr bookings)"
    and "JNull \<notin> set bookings"
    and "\<exists>b\<in>set bookings. get b ''id'' = Inr (Some (JStr i))"
    and "map_of req_body ''status'' = Some (JStr s)"
    and "can_write d"
  shows "\<exists>n booking.
           update_booking c i req_body d =
             (Response 200
                (JObj [(''success'', JBool True), (''booking'', booking),
                       (''message'', JStr ''Booking status updated successfully'')]),
              d\<lparr>bookingsFile := Doc (JArr (bookings[n := booking]))\<rparr>)
         \<and> n < length bookings
         \<and> get (bookings ! n) ''id'' = Inr (Some (JStr i))
         \<and> (\<forall>j<n. get (bookings ! j) ''id'' \<noteq> Inr (Some (JStr i)))
         \<and> get booking ''id'' = Inr (Some (JStr i))
         \<and> get booking ''status'' = Inr (Some (JStr s))
         \<and> get booking ''updatedAt'' = Inr (Some (JStr (toISOString c)))"
proof -
  from findIndex_found [OF assms(2,3)] obtain n
    where found: "findIndex_id i bookings = Inr (Some n)" by blast
  note at_n = findIndex_Some [OF found]
  then obtain ps where ps: "bookings ! n = JObj ps"
    using get_id_is_object by blast
  let ?b = "set_status (Some (JStr s)) (toISOString c) (bookings ! n)"
  have "update_booking c i req_body d =
             (Response 200
                (JObj [(''success'', JBool True), (''booking'', ?b),
                       (''message'', JStr ''Booking status updated successfully'')]),
              d\<lparr>bookingsFile := Doc (JArr (bookings[n := ?b]))\<rparr>)"
    using update_booking_found [OF assms(1) found] assms(4,5) by simp
  moreover have "get ?b ''status'' = Inr (Some (JStr s))"
    by (simp add: ps get_set_status_status)
  moreover have "get ?b ''updatedAt'' = Inr (Some (JStr (toISOString c)))"
    by (simp add: ps get_set_status_updatedAt)
  moreover have "get ?b ''id'' = Inr (Some (JStr i))"
    using at_n by (simp add: get_set_status_other)
  ultimately show ?thesis
    using at_n by blast
qed

theorem update_stores_any_string_witness:
  "(\<exists>booking.
      update_booking one_pm ''1748779200000'' [(''status'', JStr ''on hold?'')] twins =
        (Response 200
           (JObj [(''success'', JBool True), (''booking'', booking),
                  (''message'', JStr ''Booking status updated successfully'')]),
         twins\<lparr>bookingsFile := Doc (JArr [booking, johns_booking])\<rparr>)
      \<and> get booking ''status'' = Inr (Some (JStr ''on hold?'')))
   \<and> (\<exists>n booking.
      update_booking noon ''1748779200000'' [(''status'', JStr [])] one_booking =
        (Response 200
           (JObj [(''success'', JBool True), (''booking'', booking),
                  (''message'', JStr ''Booking status updated successfully'')]),
         one_booking\<lparr>bookingsFile := Doc (JArr ([janes_booking][n := booking]))\<rparr>)
      \<and> get booking ''status'' = Inr (Some (JStr [])))"
proof -
  have nonull: "JNull \<notin> set [janes_booking]"
    by (simp add: janes_booking_def)
  have present: "\<exists>b\<in>set [janes_booking]. get b ''id'' = Inr (Some (JStr ''1748779200000''))"
    by (simp add: janes_booking_id)
  have writable: "can_write one_booking"
    by (simp add: one_booking_def)
  have s2: "map_of [(''status'', JStr [])] ''status'' = Some (JStr [])"
    by simp
  from update_stores_any_string [OF one_booking_file nonull present s2 writable, of noon]
  have empty_string: "\<exists>n booking.
      update_booking noon ''1748779200000'' [(''status'', JStr [])] one_booking =
        (Response 200
           (JObj [(''success'', JBool True), (''booking'', booking),
                  (''message'', JStr ''Booking status updated successfully'')]),
         one_booking\<lparr>bookingsFile := Doc (JArr ([janes_booking][n := booking]))\<rparr>)
      \<and> get booking ''status'' = Inr (Some (JStr []))"
    by blast
  have stored: "bookingsFile twins = Doc (JArr [janes_booking, johns_booking])"
    and writable2: "can_write twins"
    by (simp_all add: twins_def)
  have nonull2: "JNull \<notin> set [janes_booking, johns_booking]"
    by (simp add: janes_booking_def johns_booking_def)
  have present2: "\<exists>b\<in>set [janes_booking, johns_booking].
      get b ''id'' = Inr (Some (JStr ''1748779200000''))"
    by (simp add: janes_booking_id)
  have s1: "map_of [(''status'', JStr ''on hold?'')] ''status'' = Some (JStr ''on hold?'')"
    by simp
  have "\<exists>n booking.
           update_booking one_pm ''1748779200000'' [(''status'', JStr ''on hold?'')] twins =
             (Response 200
                (JObj [(''success'', JBool True), (''booking'', booking),
                       (''message'', JStr ''Booking status updated successfully'')]),
              twins\<lparr>bookingsFile := Doc (JArr ([janes_booking, johns_booking][n := booking]))\<rparr>)
         \<and> n < length [janes_booking, johns_booking]
         \<and> get ([janes_booking, johns_booking] ! n) ''id'' = Inr (Some (JStr ''1748779200000''))
         \<and> (\<forall>j<n. get ([janes_booking, johns_booking] ! j) ''id''
               \<noteq> Inr (Some (JStr ''1748779200000'')))
         \<and> get booking ''id'' = Inr (Some (JStr ''1748779200000''))
         \<and> get booking ''status'' = Inr (Some (JStr ''on hold?''))
         \<and> get booking ''updatedAt'' = Inr (Some (JStr (toISOString one_pm)))"
    by (rule update_stores_any_string [OF stored nonull2 present2 s1 writable2])
  then obtain n where "\<exists>booking.
           update_booking one_pm ''1748779200000'' [(''status'', JStr ''on hold?'')] twins =
             (Response 200
                (JObj [(''success'', JBool True), (''booking'', booking),
                       (''message'', JStr ''Booking status updated successfully'')]),
              twins\<lparr>bookingsFile := Doc (JArr ([janes_booking, johns_booking][n := booking]))\<rparr>)
         \<and> n < length [janes_booking, johns_booking]
         \<and> get ([janes_booking, johns_booking] ! n) ''id'' = Inr (Some (JStr ''1748779200000''))
         \<and> (\<forall>j<n. get ([janes_booking, johns_booking] ! j) ''id''
               \<noteq> Inr (Some (JStr ''1748779200000'')))
         \<and> get booking ''id'' = Inr (Some (JStr ''1748779200000''))
         \<and> get booking ''status'' = Inr (Some (JStr ''on hold?''))
         \<and> get booking ''updatedAt'' = Inr (Some (JStr (toISOString one_pm)))" ..
  then obtain booking where g:
          "update_booking one_pm ''1748779200000'' [(''status'', JStr ''on hold?'')] twins =
             (Response 200
                (JObj [(''success'', JBool True), (''booking'', booking),
                       (''message'', JStr ''Booking status updated successfully'')]),
              twins\<lparr>bookingsFile := Doc (JArr ([janes_booking, johns_booking][n := booking]))\<rparr>)
         \<and> n < length [janes_booking, johns_booking]
         \<and> get ([janes_booking, johns_booking] ! n) ''id'' = Inr (Some (JStr ''1748779200000''))
         \<and> (\<forall>j<n. get ([janes_booking, johns_booking] ! j) ''id''
               \<noteq> Inr (Some (JStr ''1748779200000'')))
         \<and> get booking ''id'' = Inr (Some (JStr ''1748779200000''))
         \<and> get booking ''status'' = Inr (Some (JStr ''on hold?''))
         \<and> get booking ''updatedAt'' = Inr (Some (JStr (toISOString one_pm)))" ..
  note first = g [THEN conjunct2, THEN conjunct2, THEN conjunct2, THEN conjunct1]
  have n: "n = 0"
  proof (rule ccontr)
    assume "n \<noteq> 0"
    then have "0 < n" by simp
    with first [rule_format, of 0] have "get ([janes_booking, johns_booking] ! 0) ''id''
        \<noteq> Inr (Some (JStr ''1748779200000''))"
      by simp
    then show False
      by (simp add: janes_booking_id)
  qed
  from g [THEN conjunct1] n
  have "update_booking one_pm ''1748779200000'' [(''status'', JStr ''on hold?'')] twins =
        (Response 200
           (JObj [(''success'', JBool True), (''booking'', booking),
                  (''message'', JStr ''Booking status updated successfully'')]),
         twins\<lparr>bookingsFile := Doc (JArr [booking, johns_booking])\<rparr>)"
    by simp
  moreover note g [THEN conjunct2, THEN conjunct2, THEN conjunct2, THEN conjunct2,
      THEN conjunct2, THEN conjunct1]
  ultimately have "\<exists>booking.
      update_booking one_pm ''1748779200000'' [(''status'', JStr ''on hold?'')] twins =
        (Response 200
           (JObj [(''success'', JBool True), (''booking'', booking),
                  (''message'', JStr ''Booking status updated successfully'')]),
         twins\<lparr>bookingsFile := Doc (JArr [booking, johns_booking])\<rparr>)
      \<and> get booking ''status'' = Inr (Some (JStr ''on hold?''))"
    by (intro exI [of _ booking] conjI)
  with empty_string show ?thesis
    by (rule conjI [rotated])
qed

subsection \<open>C8: a create request with a required field missing\<close>

text \<open>
  C8. For every create request in which one of fullName, email, phone, checkIn, checkOut
  is falsy (missing and the empty string are, \<open>falsy_missing_or_empty\<close>), the handler
  answers 400 and writes no booking: the state of the data directory after the call is the
  one that \<^verbatim>\<open>ensureDataDirExists\<close> leaves, which is the state before the call when the
  file exists and otherwise has no file, the empty array, or what a failed write of the
  empty array left; the list endpoint answers after the call what it answers before it.
\<close>

theorem create_rejects_missing_field:
  assumes "k \<in> {''fullName'', ''email'', ''phone'', ''checkIn'', ''checkOut''}"
    and "\<not> truthy (map_of req_body k)"
  shows "create_booking c req_body d =
           (Response 400 (JObj [(''message'', JStr ''Required fields are missing'')]),
            ensureDataDirExists d)
       \<and> get_bookings (snd (create_booking c req_body d)) = get_bookings d
       \<and> (bookingsFile d \<noteq> Absent \<longrightarrow> snd (create_booking c req_body d) = d)
       \<and> (bookingsFile d = Absent \<longrightarrow>
            bookingsFile (snd (create_booking c req_body d)) \<in> {Absent, Garbage, Doc (JArr [])})"
proof -
  have "\<not> truthy (map_of req_body ''fullName'') \<or> \<not> truthy (map_of req_body ''email'')
      \<or> \<not> truthy (map_of req_body ''phone'') \<or> \<not> truthy (map_of req_body ''checkIn'')
      \<or> \<not> truthy (map_of req_body ''checkOut'')"
    using assms by auto
  then have r: "create_booking c req_body d =
           (Response 400 (JObj [(''message'', JStr ''Required fields are missing'')]),
            ensureDataDirExists d)"
    by (rule create_booking_invalid)
  moreover have "get_bookings (ensureDataDirExists d) = get_bookings d"
    by (simp add: get_bookings_def ensure_idem)
  moreover have "bookingsFile d \<noteq> Absent \<longrightarrow> ensureDataDirExists d = d"
    by (simp add: ensure_present)
  moreover have "bookingsFile d = Absent \<longrightarrow>
      bookingsFile (ensureDataDirExists d) \<in> {Absent, Garbage, Doc (JArr [])}"
    by (simp add: ensureDataDirExists_def writeFile_def)
  ultimately show ?thesis
    by simp
qed

theorem create_rejects_missing_field_witness:
  "\<not> truthy (map_of [(''fullName'', JStr ''Jane Doe''), (''email'', JStr [])] ''email'')
   \<and> \<not> truthy (map_of [(''fullName'', JStr ''Jane Doe'')] ''phone'')
   \<and> create_booking noon [(''fullName'', JStr ''Jane Doe''), (''email'', JStr [])] one_booking =
       (Response 400 (JObj [(''message'', JStr ''Required fields are missing'')]), one_booking)
   \<and> fst (create_booking noon [(''fullName'', JStr ''Jane Doe'')] fresh_disk) =
       Response 400 (JObj [(''message'', JStr ''Required fields are missing'')])
   \<and> (bookingsFile (snd (create_booking noon [(''fullName'', JStr ''Jane Doe'')] fresh_disk)) = Absent
      \<or> bookingsFile (snd (create_booking noon [(''fullName'', JStr ''Jane Doe'')] fresh_disk))
          = Doc (JArr []))"
proof -
  have empty: "\<not> truthy (map_of [(''fullName'', JStr ''Jane Doe''), (''email'', JStr [])] ''email'')"
    by simp
  have missing: "\<not> truthy (map_of [(''fullName'', JStr ''Jane Doe'')] ''phone'')"
    by simp
  have k1: "''email'' \<in> {''fullName'', ''email'', ''phone'', ''checkIn'', ''checkOut''}"
    by simp
  have k2: "''phone'' \<in> {''fullName'', ''email'', ''phone'', ''checkIn'', ''checkOut''}"
    by simp
  have present: "bookingsFile one_booking \<noteq> Absent"
    by (simp add: one_booking_def)
  have absent: "bookingsFile fresh_disk = Absent"
    by (simp add: fresh_disk_def)
  note a = create_rejects_missing_field [OF k1 empty, of noon one_booking]
  note b = create_rejects_missing_field [OF k2 missing, of noon fresh_disk]
  from a present have "create_booking noon [(''fullName'', JStr ''Jane Doe''), (''email'', JStr [])] one_booking =
       (Response 400 (JObj [(''message'', JStr ''Required fields are missing'')]), one_booking)"
    by (metis prod.collapse fst_conv)
  moreover from b have "fst (create_booking noon [(''fullName'', JStr ''Jane Doe'')] fresh_disk) =
       Response 400 (JObj [(''message'', JStr ''Required fields are missing'')])"
    by simp
  moreover from b have
    "bookingsFile (snd (create_booking noon [(''fullName'', JStr ''Jane Doe'')] fresh_disk)) = Absent
      \<or> bookingsFile (snd (create_booking noon [(''fullName'', JStr ''Jane Doe'')] fresh_disk))
          = Doc (JArr [])"
    by (simp add: ensure_absent fresh_disk_def)
  ultimately show ?thesis
    using empty missing by simp
qed

subsection \<open>C9: fetching a booking right after creating it\<close>

text \<open>
  C9 says that fetching by the id of the booking a create request returned gives that
  booking. The lookup returns the first stored booking with the id, and the id is the
  millisecond of creation: with a booking of the same millisecond already stored, the
  create request answers 201 with the new booking and the lookup by its id answers the
  older one.
\<close>

theorem get_after_create_returns_older_booking:
  "snd (create_booking noon jane fresh_disk) = one_booking
   \<and> create_booking noon john one_booking =
     (Response 201 (JObj [(''message'', JStr ''Booking request received successfully''),
                          (''booking'', johns_booking)]),
      one_booking\<lparr>bookingsFile := Doc (JArr [janes_booking, johns_booking])\<rparr>)
   \<and> get johns_booking ''id'' = Inr (Some (JStr ''1748779200000''))
   \<and> fst (get_booking ''1748779200000''
        (one_booking\<lparr>bookingsFile := Doc (JArr [janes_booking, johns_booking])\<rparr>))
      = Response 200 janes_booking
   \<and> janes_booking \<noteq> johns_booking"
proof -
  have "fst (get_booking ''1748779200000''
        (one_booking\<lparr>bookingsFile := Doc (JArr [janes_booking, johns_booking])\<rparr>))
      = Response 200 janes_booking"
    by (simp add: get_booking_def one_booking_def janes_booking_def ensureDataDirExists_def
        read_bookings_def Let_def)
  moreover have "get johns_booking ''id'' = Inr (Some (JStr ''1748779200000''))"
    "janes_booking \<noteq> johns_booking"
    by (simp_all add: janes_booking_def johns_booking_def)
  ultimately show ?thesis
    by (simp add: create_jane create_john fresh_one_booking)
qed

theorem get_after_create_returns_older_booking_witness:
  "fst (create_booking noon john one_booking) =
     Response 201 (JObj [(''message'', JStr ''Booking request received successfully''),
                         (''booking'', johns_booking)])
   \<and> fst (get_booking ''1748779200000'' (snd (create_booking noon john one_booking)))
       = Response 200 janes_booking"
  using get_after_create_returns_older_booking by simp

subsection \<open>C10: the scheme word is not compared\<close>

text \<open>
  C10. For every Authorization header whose second space-separated piece is the secret,
  the guard lets the request through, whatever the first piece and the pieces after the
  second are: any first piece without a space followed by a space and the secret, with or
  without further text after another space, is accepted, as are
  \<^verbatim>\<open>NotBearer Password1\<close> and \<^verbatim>\<open>Bearer Password1 extra\<close>, exactly like
  \<^verbatim>\<open>Bearer Password1\<close>.
\<close>

theorem guard_ignores_scheme:
  "(\<forall>t0 ts. split_sp h = t0 # ''Password1'' # ts \<longrightarrow> auth (Some h) = Next)
   \<and> (CHR '' '' \<notin> set scheme \<longrightarrow>
        auth (Some (scheme @ '' Password1'')) = Next
        \<and> auth (Some (scheme @ '' Password1 '' @ rest)) = Next)
   \<and> auth (Some ''Bearer Password1'') = Next
   \<and> auth (Some ''NotBearer Password1'') = Next
   \<and> auth (Some ''Bearer Password1 extra'') = Next"
proof -
  have tokens: "auth (Some h) = Next" if "split_sp h = t0 # ''Password1'' # ts" for t0 ts
    using that by (simp add: auth_cases at_index_def)
  have scheme: "auth (Some (scheme @ '' Password1'')) = Next
      \<and> auth (Some (scheme @ '' Password1 '' @ rest)) = Next"
    if "CHR '' '' \<notin> set scheme"
  proof -
    have "split_sp (scheme @ CHR '' '' # ''Password1'') = scheme # split_sp ''Password1''"
      using that by (rule split_sp_append_space)
    moreover have "split_sp (scheme @ CHR '' '' # (''Password1'' @ CHR '' '' # rest))
        = scheme # split_sp (''Password1'' @ CHR '' '' # rest)"
      using that by (rule split_sp_append_space)
    moreover have "split_sp (''Password1'' @ CHR '' '' # rest) = ''Password1'' # split_sp rest"
      by (rule split_sp_append_space) simp
    ultimately show ?thesis
      by (simp add: auth_cases at_index_def)
  qed
  have examples: "auth (Some ''Bearer Password1'') = Next"
    "auth (Some ''NotBearer Password1'') = Next"
    "auth (Some ''Bearer Password1 extra'') = Next"
    by (simp_all add: auth_cases at_index_def)
  show ?thesis
    using tokens scheme examples by simp
qed

theorem guard_ignores_scheme_witness:
  "auth (Some ''Basic Password1 and more'') = Next \<and> auth (Some '' Password1'') = Next"
proof -
  have toks: "split_sp ''Basic Password1 and more'' = ''Basic'' # ''Password1'' # [''and'', ''more'']"
    by simp
  have nosp: "CHR '' '' \<notin> set []"
    by simp
  have "auth (Some ''Basic Password1 and more'') = Next"
    using guard_ignores_scheme [of "''Basic Password1 and more''"] toks by simp
  moreover have "auth (Some ([] @ '' Password1'')) = Next"
    using guard_ignores_scheme [of _ "[]"] nosp by simp
  ultimately show ?thesis
    by simp
qed

end
